theory Spec2Isabelle
  imports Main
begin

section \<open>Values and strings\<close>

text \<open>
  A JavaScript string is modelled as a \<^typ>\<open>string\<close> whose characters are the code units
  below 256. A JavaScript object is an association list in the order in which
  \<^verbatim>\<open>for ... in\<close> enumerates its keys; the keys of the objects the compiler receives are
  attribute and identifier names, none of them integer-like, so that order is the
  insertion order.

  A predicate value is one of the kinds the guards of \<^verbatim>\<open>Where.ts\<close> tell apart:
  the three primitive kinds decided by \<^verbatim>\<open>typeof\<close>, the eight kinds the driver's
  \<^verbatim>\<open>isInt\<close>, \<^verbatim>\<open>isPoint\<close>, ... recognise (their payload is opaque to the compiler),
  an array, an object carrying the \<^verbatim>\<open>Op.in\<close> symbol key, and what none of the guards
  accepts: \<^verbatim>\<open>null\<close>, \<^verbatim>\<open>undefined\<close> and any other object. A number is an \<^typ>\<open>int\<close>:
  the compiler stores numbers and never computes with them.
\<close>

datatype js_value =
    JString string
  | JNumber int
  | JBoolean bool
  | JInt int
  | JPoint string
  | JDate string
  | JTime string
  | JLocalTime string
  | JDateTime string
  | JLocalDateTime string
  | JDuration string
  | JArray "js_value list"
  | JWhereIn js_value
  | JNull
  | JUndefined
  | JObject

text \<open>\<^verbatim>\<open>Array.prototype.join\<close> on strings.\<close>

fun join :: "string \<Rightarrow> string list \<Rightarrow> string" where
  "join sep [] = []"
| "join sep [x] = x"
| "join sep (x # y # ys) = x @ sep @ join sep (y # ys)"

text \<open>The truth value JavaScript gives a value in a condition.\<close>

fun truthy :: "js_value \<Rightarrow> bool" where
  "truthy (JString s) = (s \<noteq> [])"
| "truthy (JNumber n) = (n \<noteq> 0)"
| "truthy (JBoolean b) = b"
| "truthy JNull = False"
| "truthy JUndefined = False"
| "truthy _ = True"

section \<open>The bind-parameter table\<close>

text \<open>
  Modelled from the spec: the class \<^verbatim>\<open>BindParam\<close> (\<^verbatim>\<open>../BindParam/BindParam\<close>) is
  not among the sources. Section 4.1 of the specification gives its contract:
  \<^verbatim>\<open>getUniqueNameAndAdd(baseName, value)\<close> derives a candidate name from the base name by
  sanitizing it to a valid placeholder identifier, appends a numeric suffix if the
  candidate already exists in the table, registers the value under the resolved name and
  returns that name; the table never drops or overwrites an entry. The specification
  leaves open which characters sanitizing replaces and where the suffixes start: here
  every character that is not a letter, a digit or an underscore becomes an underscore,
  and the suffix is the least number from 1 on, in decimal, that gives a free name.
\<close>

type_synonym bind_param = "(string \<times> js_value) list"

text \<open>The names registered in a table.\<close>

definition names :: "bind_param \<Rightarrow> string set" where
  "names b = fst ` set b"

text \<open>
  Modelled from the spec: sanitizing to a valid placeholder identifier. A letter, a digit
  or an underscore is kept; any other character becomes an underscore.
\<close>

definition isIdentifierChar :: "char \<Rightarrow> bool" where
  "isIdentifierChar c =
     (let n = (of_char c :: nat)
      in (48 \<le> n \<and> n \<le> 57) \<or> (65 \<le> n \<and> n \<le> 90) \<or> (97 \<le> n \<and> n \<le> 122) \<or> n = 95)"

definition sanitize :: "string \<Rightarrow> string" where
  "sanitize s = map (\<lambda>c. if isIdentifierChar c then c else CHR ''_'') s"

text \<open>Modelled from the spec: the numeric suffix, a number in decimal.\<close>

fun string_of_nat :: "nat \<Rightarrow> string" where
  "string_of_nat n =
     (if n < 10 then [char_of (48 + n)]
      else string_of_nat (n div 10) @ [char_of (48 + n mod 10)])"

declare string_of_nat.simps [simp del]

lemma string_of_nat_nonempty: "string_of_nat n \<noteq> []"
  by (subst string_of_nat.simps) simp

lemma digit_char_inj:
  assumes "a < 10" "b < 10" "char_of (48 + a) = (char_of (48 + b) :: char)"
  shows "a = (b::nat)"
proof -
  have "of_char (char_of (48 + a) :: char) = (of_char (char_of (48 + b) :: char) :: nat)"
    using assms(3) by simp
  then have "(48 + a) mod 256 = (48 + b) mod 256"
    by (simp only: of_char_of)
  with assms(1,2) show ?thesis by simp
qed

lemma string_of_nat_inj: "string_of_nat m = string_of_nat n \<Longrightarrow> m = n"
proof (induction m arbitrary: n rule: string_of_nat.induct)
  case (1 m)
  show ?case
  proof (cases "m < 10")
    case small_m: True
    show ?thesis
    proof (cases "n < 10")
      case True
      with small_m "1.prems" show ?thesis
        by (simp add: string_of_nat.simps [of m] string_of_nat.simps [of n] digit_char_inj)
    next
      case False
      with small_m "1.prems" string_of_nat_nonempty [of "n div 10"] show ?thesis
        by (simp add: string_of_nat.simps [of m] string_of_nat.simps [of n])
    qed
  next
    case big_m: False
    show ?thesis
    proof (cases "n < 10")
      case True
      with big_m "1.prems" string_of_nat_nonempty [of "m div 10"] show ?thesis
        by (simp add: string_of_nat.simps [of m] string_of_nat.simps [of n])
    next
      case False
      with big_m "1.prems"
      have eq: "string_of_nat (m div 10) = string_of_nat (n div 10)"
        and last: "char_of (48 + m mod 10) = (char_of (48 + n mod 10) :: char)"
        by (simp_all add: string_of_nat.simps [of m] string_of_nat.simps [of n])
      from "1.IH" [OF big_m eq] have "m div 10 = n div 10" .
      moreover from last have "m mod 10 = n mod 10"
        by (rule digit_char_inj [rotated 2]) simp_all
      ultimately show ?thesis
        by (metis div_mult_mod_eq)
    qed
  qed
qed

lemma suffixed_inj: "inj (\<lambda>n. c @ string_of_nat n)"
  by (rule injI) (simp add: string_of_nat_inj)

lemma finite_suffixes: "finite {m. c @ string_of_nat m \<in> set ks}"
proof -
  have "{m. c @ string_of_nat m \<in> set ks} = (\<lambda>n. c @ string_of_nat n) -` set ks"
    by auto
  then show ?thesis
    using finite_vimageI [OF finite_set suffixed_inj] by metis
qed

text \<open>
  Modelled from the spec: the search for a free suffix. The candidate with \<open>n\<close>, then
  with \<open>n + 1\<close>, ... is tried until the name is not in the table; the table is finite
  and the suffixes of different numbers differ, so the search ends.
\<close>

function firstFreeName :: "string list \<Rightarrow> string \<Rightarrow> nat \<Rightarrow> string" where
  "firstFreeName ks c n =
     (if c @ string_of_nat n \<in> set ks then firstFreeName ks c (Suc n)
      else c @ string_of_nat n)"
  by pat_completeness auto
termination
proof (relation "measure (\<lambda>(ks, c, n). card {m. n \<le> m \<and> c @ string_of_nat m \<in> set ks})")
  show "wf (measure (\<lambda>(ks, c, n). card {m. n \<le> m \<and> c @ string_of_nat m \<in> set ks}))"
    by simp
next
  fix ks :: "string list" and c :: string and n :: nat
  assume taken: "c @ string_of_nat n \<in> set ks"
  have fin: "finite {m. n \<le> m \<and> c @ string_of_nat m \<in> set ks}"
    by (rule finite_subset [OF _ finite_suffixes [of c ks]]) auto
  have "n \<in> {m. n \<le> m \<and> c @ string_of_nat m \<in> set ks}"
    using taken by simp
  moreover have "n \<notin> {m. Suc n \<le> m \<and> c @ string_of_nat m \<in> set ks}"
    by simp
  moreover have "{m. Suc n \<le> m \<and> c @ string_of_nat m \<in> set ks}
          \<subseteq> {m. n \<le> m \<and> c @ string_of_nat m \<in> set ks}"
    by auto
  ultimately have "{m. Suc n \<le> m \<and> c @ string_of_nat m \<in> set ks}
          \<subset> {m. n \<le> m \<and> c @ string_of_nat m \<in> set ks}"
    by blast
  then have "card {m. Suc n \<le> m \<and> c @ string_of_nat m \<in> set ks}
          < card {m. n \<le> m \<and> c @ string_of_nat m \<in> set ks}"
    by (rule psubset_card_mono [OF fin])
  then show "((ks, c, Suc n), (ks, c, n))
          \<in> measure (\<lambda>(ks, c, n). card {m. n \<le> m \<and> c @ string_of_nat m \<in> set ks})"
    by simp
qed

declare firstFreeName.simps [simp del]

text \<open>
  Modelled from the spec: the resolved name, the sanitized base name when the table does
  not have it and the first free suffixed name otherwise.
\<close>

definition getUniqueName :: "bind_param \<Rightarrow> string \<Rightarrow> string" where
  "getUniqueName b baseName =
     (let c = sanitize baseName; ks = map fst b
      in if c \<in> set ks then firstFreeName ks c 1 else c)"

text \<open>
  Modelled from the spec: \<^verbatim>\<open>getUniqueNameAndAdd\<close> registers the value under the resolved
  name, after the entries the table has, and returns the name with the table.
\<close>

definition getUniqueNameAndAdd :: "bind_param \<Rightarrow> string \<Rightarrow> js_value \<Rightarrow> string \<times> bind_param" where
  "getUniqueNameAndAdd b baseName v =
     (let name = getUniqueName b baseName in (name, b @ [(name, v)]))"

section \<open>Data shared by the two compilers\<close>

text \<open>The operator of a tuple and the mode of \<^verbatim>\<open>getStatement\<close>.\<close>

datatype operator = Equals | In

datatype mode = ModeObject | ModeText

type_synonym where_params = "(string \<times> js_value) list"

type_synonym where_params_by_identifier = "(string \<times> where_params) list"

text \<open>
  A node object of a pattern (\<^verbatim>\<open>NodeForMatchI\<close>, \<^verbatim>\<open>NodeForCreateI\<close>) and a relationship
  object (\<^verbatim>\<open>RelationshipForMatchI\<close>, \<^verbatim>\<open>RelationshipForCreateI\<close>). An absent field is
  \<^term>\<open>None\<close>; the fields carry the prefixes \<open>n_\<close> and \<open>r_\<close> because two records cannot
  share a field name. A model is represented by the label its \<^verbatim>\<open>getLabel()\<close> returns.
\<close>

record node_object =
  n_identifier :: string
  n_label :: "string option"
  n_model :: "string option"
  n_where :: "where_params option"
  n_properties :: "(string \<times> js_value) list option"

datatype direction = DirectionOut | DirectionIn | DirectionNone

record relationship_object =
  r_direction :: direction
  r_identifier :: string
  r_name :: string
  r_where :: "where_params option"
  r_properties :: "(string \<times> js_value) list option"

text \<open>
  The error class \<^verbatim>\<open>NeogmaConstraintError\<close> carries a message and, optionally, the
  offending data under \<^verbatim>\<open>actual\<close>.
\<close>

datatype actual = ActualModeOperator mode operator | ActualCreate node_object

datatype neogma_error = NeogmaConstraintError string "actual option"

section \<open>The predicate compiler (\<^verbatim>\<open>Where.ts\<close>)\<close>

text \<open>
  The tuples of \<^verbatim>\<open>identifierPropertyData\<close> and the three fields of the class. The table is
  the caller's when one is given: what the predicate registers is seen by whoever shares
  the table, so the functions below return the predicate with the table in it.
\<close>

record identifier_property_data =
  "identifier" :: string
  property :: string
  bindParamName :: string
  operator :: operator

record where_state =
  bindParam :: bind_param
  rawParams :: "where_params_by_identifier list"
  identifierPropertyData :: "identifier_property_data list"

text \<open>\<^verbatim>\<open>isWhereIn\<close>: \<^verbatim>\<open>value?.[Op.in]\<close>, read as a condition.\<close>

fun isWhereIn :: "js_value \<Rightarrow> bool" where
  "isWhereIn (JWhereIn x) = truthy x"
| "isWhereIn _ = False"

fun isSupportedSingleType :: "js_value \<Rightarrow> bool" where
  "isSupportedSingleType (JString _) = True"
| "isSupportedSingleType (JNumber _) = True"
| "isSupportedSingleType (JBoolean _) = True"
| "isSupportedSingleType (JInt _) = True"
| "isSupportedSingleType (JPoint _) = True"
| "isSupportedSingleType (JDate _) = True"
| "isSupportedSingleType (JTime _) = True"
| "isSupportedSingleType (JLocalTime _) = True"
| "isSupportedSingleType (JDateTime _) = True"
| "isSupportedSingleType (JLocalDateTime _) = True"
| "isSupportedSingleType (JDuration _) = True"
| "isSupportedSingleType _ = False"

fun isNeo4jSupportedTypes :: "js_value \<Rightarrow> bool" where
  "isNeo4jSupportedTypes (JArray vs) = (find (\<lambda>element. \<not> isSupportedSingleType element) vs = None)"
| "isNeo4jSupportedTypes v = isSupportedSingleType v"

text \<open>
  \<^verbatim>\<open>Object.assign\<close>: each own key of the source is written to the target; a key the
  target has keeps its place in the enumeration order and takes the new value, a new key
  goes to the end.
\<close>

fun setKey :: "('k \<times> 'v) list \<Rightarrow> 'k \<Rightarrow> 'v \<Rightarrow> ('k \<times> 'v) list" where
  "setKey [] k v = [(k, v)]"
| "setKey ((k', v') # kvs) k v = (if k' = k then (k, v) # kvs else (k', v') # setKey kvs k v)"

fun assign :: "('k \<times> 'v) list \<Rightarrow> ('k \<times> 'v) list \<Rightarrow> ('k \<times> 'v) list" where
  "assign target [] = target"
| "assign target ((k, v) # kvs) = assign (setKey target k v) kvs"

definition assignAll :: "('k \<times> 'v) list list \<Rightarrow> ('k \<times> 'v) list" where
  "assignAll sources = foldl assign [] sources"

text \<open>\<^verbatim>\<open>getNameAndAddToParams\<close>: the generated name with the \<^verbatim>\<open>$\<close> in front.\<close>

definition getNameAndAddToParams :: "bind_param \<Rightarrow> string \<Rightarrow> js_value \<Rightarrow> string \<times> bind_param" where
  "getNameAndAddToParams b prefix v =
     (case getUniqueNameAndAdd b prefix v of (name, b') \<Rightarrow> (''$'' @ name, b'))"

text \<open>
  The body of the inner loop of \<^verbatim>\<open>setBindParamNames\<close>, for one property of one
  identifier. There is no third branch: a value neither guard accepts changes nothing.
\<close>

definition addProperty :: "string \<Rightarrow> string \<times> js_value \<Rightarrow> where_state \<Rightarrow> where_state" where
  "addProperty nodeIdentifier pv w =
     (case pv of (prop, val) \<Rightarrow>
        if isNeo4jSupportedTypes val then
          (case getNameAndAddToParams (bindParam w) prop val of (name, b') \<Rightarrow>
             w\<lparr>bindParam := b',
               identifierPropertyData := identifierPropertyData w @
                 [\<lparr>identifier = nodeIdentifier, property = prop,
                   bindParamName = name, operator = Equals\<rparr>]\<rparr>)
        else if isWhereIn val then
          (case val of
             JWhereIn x \<Rightarrow>
               (case getNameAndAddToParams (bindParam w) prop x of (name, b') \<Rightarrow>
                  w\<lparr>bindParam := b',
                    identifierPropertyData := identifierPropertyData w @
                      [\<lparr>identifier = nodeIdentifier, property = prop,
                        bindParamName = name, operator = In\<rparr>]\<rparr>)
           | _ \<Rightarrow> w)
        else w)"

fun addProperties :: "string \<Rightarrow> where_params \<Rightarrow> where_state \<Rightarrow> where_state" where
  "addProperties nodeIdentifier [] w = w"
| "addProperties nodeIdentifier (pv # pvs) w =
     addProperties nodeIdentifier pvs (addProperty nodeIdentifier pv w)"

fun addIdentifiers :: "where_params_by_identifier \<Rightarrow> where_state \<Rightarrow> where_state" where
  "addIdentifiers [] w = w"
| "addIdentifiers ((nodeIdentifier, props) # rest) w =
     addIdentifiers rest (addProperties nodeIdentifier props w)"

definition setBindParamNames :: "where_state \<Rightarrow> where_state" where
  "setBindParamNames w = addIdentifiers (assignAll (rawParams w)) w"

definition addParams :: "where_params_by_identifier \<Rightarrow> where_state \<Rightarrow> where_state" where
  "addParams whereParams w = setBindParamNames (w\<lparr>rawParams := rawParams w @ [whereParams]\<rparr>)"

text \<open>
  The constructor: \<^verbatim>\<open>BindParam.acquire\<close> hands back the table it is given (the caller's
  table is the one the predicate extends), both lists start empty.
\<close>

definition newWhere :: "where_params_by_identifier \<Rightarrow> bind_param \<Rightarrow> where_state" where
  "newWhere whereParams b =
     addParams whereParams \<lparr>bindParam = b, rawParams = [], identifierPropertyData = []\<rparr>"

fun operatorForStatement :: "mode \<Rightarrow> operator \<Rightarrow> neogma_error + string" where
  "operatorForStatement ModeObject op =
     (if op \<noteq> Equals then
        Inl (NeogmaConstraintError
          ''The only operator which is supported for object mode is \"equals\"''
          (Some (ActualModeOperator ModeObject op)))
      else Inr '':'')"
| "operatorForStatement ModeText Equals = Inr ''=''"
| "operatorForStatement ModeText In = Inr ''IN''"

fun statementPartsOf ::
  "mode \<Rightarrow> identifier_property_data list \<Rightarrow> neogma_error + string list" where
  "statementPartsOf m [] = Inr []"
| "statementPartsOf m (d # ds) =
     (case operatorForStatement m (operator d) of
        Inl e \<Rightarrow> Inl e
      | Inr opr \<Rightarrow>
          (case statementPartsOf m ds of
             Inl e \<Rightarrow> Inl e
           | Inr parts \<Rightarrow>
               Inr (((if m = ModeText then identifier d @ ''.'' @ property d else property d)
                     @ '' '' @ opr @ '' '' @ bindParamName d) # parts)))"

definition getStatement :: "mode \<Rightarrow> where_state \<Rightarrow> neogma_error + string" where
  "getStatement m w =
     (case statementPartsOf m (identifierPropertyData w) of
        Inl e \<Rightarrow> Inl e
      | Inr statementParts \<Rightarrow>
          (case m of
             ModeText \<Rightarrow> Inr (join '' AND '' statementParts)
           | ModeObject \<Rightarrow> Inr (''{ '' @ join '', '' statementParts @ '' }'')))"

section \<open>The fragment renderers of \<^verbatim>\<open>QueryRunner\<close>\<close>

text \<open>
  Modelled from the spec: \<^verbatim>\<open>QueryRunner.getNodeStatement\<close>,
  \<^verbatim>\<open>QueryRunner.getRelationshipStatement\<close> and \<^verbatim>\<open>QueryRunner.getSetParts\<close> are not
  among the sources. Section 6 of the specification describes the property-serialization
  routine: it registers one bind entry per property through \<^verbatim>\<open>getUniqueNameAndAdd\<close> and
  returns the assignment fragment \<^verbatim>\<open>identifier.k1 = $v1, identifier.k2 = $v2\<close> (which
  \<^verbatim>\<open>getSetParts\<close> hands back behind the keyword \<^verbatim>\<open>SET\<close>, as section 4.4 has it) and the
  inline fragment \<^verbatim>\<open>{ k1: $v1, k2: $v2 }\<close>. Sections 4.3 and 6 describe the element
  renderers: a node is \<^verbatim>\<open>(identifier:Label {...})\<close>, a relationship
  \<^verbatim>\<open>-[identifier:TYPE {...}]->\<close>, the inner fragment being the predicate in object mode
  or the inline properties. The specification says nothing of the other directions: here
  an incoming relationship has its arrow on the left and an undirected one has none.
\<close>

text \<open>
  The \<^verbatim>\<open>inner\<close> part the clause compiler hands to a renderer: a predicate or a property
  map. The table is passed along explicitly.
\<close>

datatype inner = InnerWhere where_state | InnerProperties "(string \<times> js_value) list"

text \<open>
  Modelled from the spec: one bind entry per property, in order; the result pairs each
  property with its generated name.
\<close>

fun registerProperties ::
  "(string \<times> js_value) list \<Rightarrow> bind_param \<Rightarrow> (string \<times> string) list \<times> bind_param" where
  "registerProperties [] b = ([], b)"
| "registerProperties ((k, v) # kvs) b =
     (case getUniqueNameAndAdd b k v of (name, b1) \<Rightarrow>
        (case registerProperties kvs b1 of (rest, b2) \<Rightarrow> ((k, name) # rest, b2)))"

text \<open>Modelled from the spec: the inline fragment \<^verbatim>\<open>{ k1: $v1, k2: $v2 }\<close>.\<close>

definition getPropertiesWithParams ::
  "(string \<times> js_value) list \<Rightarrow> bind_param \<Rightarrow> string \<times> bind_param" where
  "getPropertiesWithParams props b =
     (case registerProperties props b of (kns, b') \<Rightarrow>
        (''{ '' @ join '', '' (map (\<lambda>(k, n). k @ '': $'' @ n) kns) @ '' }'', b'))"

text \<open>
  Modelled from the spec: the statement of \<^verbatim>\<open>getSetParts\<close>, the keyword \<^verbatim>\<open>SET\<close> and the
  assignments \<^verbatim>\<open>identifier.k1 = $v1, identifier.k2 = $v2\<close>.
\<close>

definition getSetParts ::
  "(string \<times> js_value) list \<Rightarrow> string \<Rightarrow> bind_param \<Rightarrow> string \<times> bind_param" where
  "getSetParts props ident b =
     (case registerProperties props b of (kns, b') \<Rightarrow>
        (''SET '' @ join '', '' (map (\<lambda>(k, n). ident @ ''.'' @ k @ '' = $'' @ n) kns), b'))"

text \<open>
  Modelled from the spec: the inner fragment of an element, behind a space: nothing, the
  predicate rendered in object mode (its error is the renderer's error) or the inline
  properties.
\<close>

definition innerStatement ::
  "inner option \<Rightarrow> bind_param \<Rightarrow> neogma_error + (string \<times> bind_param)" where
  "innerStatement i b =
     (case i of
        None \<Rightarrow> Inr ([], b)
      | Some (InnerWhere w) \<Rightarrow>
          (case getStatement ModeObject w of
             Inl e \<Rightarrow> Inl e
           | Inr s \<Rightarrow> Inr ('' '' @ s, b))
      | Some (InnerProperties props) \<Rightarrow>
          (case getPropertiesWithParams props b of (s, b') \<Rightarrow> Inr ('' '' @ s, b')))"

text \<open>Modelled from the spec: a node, \<^verbatim>\<open>(identifier:Label {...})\<close>.\<close>

definition getNodeStatement ::
  "string \<Rightarrow> string \<Rightarrow> inner option \<Rightarrow> bind_param \<Rightarrow> neogma_error + (string \<times> bind_param)" where
  "getNodeStatement ident lbl i b =
     (case innerStatement i b of
        Inl e \<Rightarrow> Inl e
      | Inr (s, b') \<Rightarrow> Inr (''('' @ ident @ '':'' @ lbl @ s @ '')'', b'))"

text \<open>Modelled from the spec: a relationship, \<^verbatim>\<open>-[identifier:TYPE {...}]->\<close>.\<close>

definition getRelationshipStatement ::
  "direction \<Rightarrow> string \<Rightarrow> string \<Rightarrow> inner option \<Rightarrow> bind_param
     \<Rightarrow> neogma_error + (string \<times> bind_param)" where
  "getRelationshipStatement dir ident nm i b =
     (case innerStatement i b of
        Inl e \<Rightarrow> Inl e
      | Inr (s, b') \<Rightarrow>
          Inr ((if dir = DirectionIn then ''<-'' else ''-'')
               @ ''['' @ ident @ '':'' @ nm @ s @ '']''
               @ (if dir = DirectionOut then ''->'' else ''-''), b'))"

section \<open>The clause compiler (\<^verbatim>\<open>QueryBuilder.ts\<close>)\<close>

text \<open>
  Modelled from the spec: the descriptor types and their guards
  (\<^verbatim>\<open>./QueryBuilder.types\<close>) are not among the sources. Section 3 of the specification
  lists the shapes; each is a constructor here, and a guard \<^verbatim>\<open>isX\<close> holds of exactly the
  values of its constructor. Where the source tries its guards and ends without an
  \<^verbatim>\<open>else\<close>, the constructor \<open>...Other\<close> stands for the objects none of the guards accepts.
  The guards of a node or relationship object (\<^verbatim>\<open>isNodeWithLabel\<close>, \<^verbatim>\<open>isNodeWithModel\<close>,
  \<^verbatim>\<open>isNodeWithWhere\<close>, \<^verbatim>\<open>isNodeWithProperties\<close> and the two of a relationship) hold when
  the field they name is present. An optional flag is \<^term>\<open>None\<close> when absent.
\<close>

datatype element =
    ElementString string
  | ElementNode node_object
  | ElementRelationship relationship_object

datatype match =
    MatchString string
  | MatchMultiple "bool option" "element list"
  | MatchRelated "bool option" "element list"
  | MatchLiteral "bool option" string
  | MatchNode "bool option" node_object

datatype create =
    CreateString string
  | CreateMultiple "element list"
  | CreateRelated "element list"
  | CreateNode node_object

datatype create_mode = ModeCreate | ModeMerge

datatype set_parameter = SetString string | SetObject string "(string \<times> js_value) list"

datatype one_or_many = One string | Many "string list"

datatype delete =
    DeleteString string
  | DeleteWithIdentifier one_or_many "bool option"
  | DeleteWithLiteral string "bool option"
  | DeleteOther

datatype remove =
    RemoveString string
  | RemoveProperties string one_or_many
  | RemoveLabels string one_or_many
  | RemoveOther

datatype return =
    ReturnString string
  | ReturnObject "(string \<times> string option) list"
  | ReturnArray "string list"

datatype limit = LimitString string | LimitNumber int

datatype with_parameter = WithString string | WithArray "string list"

datatype parameter =
    RawI string
  | MatchI match
  | CreateI create
  | MergeI create
  | SetI set_parameter
  | DeleteI delete
  | RemoveI remove
  | ReturnI return
  | LimitI limit
  | WithI with_parameter
  | OtherParameter

text \<open>An optional boolean flag read as a condition: absent and \<^verbatim>\<open>false\<close> are both falsy.\<close>

fun flag :: "bool option \<Rightarrow> bool" where
  "flag (Some b) = b"
| "flag None = False"

text \<open>\<^verbatim>\<open>Array.isArray(x) ? x : [x]\<close>\<close>

fun toArray :: "one_or_many \<Rightarrow> string list" where
  "toArray (One x) = [x]"
| "toArray (Many xs) = xs"

text \<open>
  Modelled from the spec: the relationship-shape check \<^verbatim>\<open>isRelationship\<close>. It accepts the
  two forms \<^verbatim>\<open>getRelationshipString\<close> takes, a raw string and a relationship object,
  and rejects a node object.
\<close>

fun isRelationship :: "element \<Rightarrow> bool" where
  "isRelationship (ElementString _) = True"
| "isRelationship (ElementRelationship _) = True"
| "isRelationship (ElementNode _) = False"

definition getNodeObjectString ::
  "node_object \<Rightarrow> bind_param \<Rightarrow> neogma_error + (string \<times> bind_param)" where
  "getNodeObjectString node b =
     (let lbl = (case n_label node of
                   Some l \<Rightarrow> l
                 | None \<Rightarrow> (case n_model node of Some l \<Rightarrow> l | None \<Rightarrow> []))
      in case n_where node of
           Some wh \<Rightarrow>
             (let w = newWhere [(n_identifier node, wh)] b
              in getNodeStatement (n_identifier node) lbl (Some (InnerWhere w)) (bindParam w))
         | None \<Rightarrow>
             (case n_properties node of
                Some props \<Rightarrow>
                  getNodeStatement (n_identifier node) lbl (Some (InnerProperties props)) b
              | None \<Rightarrow> getNodeStatement (n_identifier node) lbl None b))"

text \<open>
  \<^verbatim>\<open>getNodeString\<close> reads whatever object it is given through the node guards. A
  relationship object has neither a label nor a model, so its label is empty; its
  predicate or properties are read as a node's.
\<close>

definition asNode :: "relationship_object \<Rightarrow> node_object" where
  "asNode r = \<lparr>n_identifier = r_identifier r, n_label = None, n_model = None,
               n_where = r_where r, n_properties = r_properties r\<rparr>"

fun getNodeString :: "element \<Rightarrow> bind_param \<Rightarrow> neogma_error + (string \<times> bind_param)" where
  "getNodeString (ElementString node) b = Inr (node, b)"
| "getNodeString (ElementNode node) b = getNodeObjectString node b"
| "getNodeString (ElementRelationship r) b = getNodeObjectString (asNode r) b"

definition getRelationshipObjectString ::
  "relationship_object \<Rightarrow> bind_param \<Rightarrow> neogma_error + (string \<times> bind_param)" where
  "getRelationshipObjectString relationship b =
     (case r_where relationship of
        Some wh \<Rightarrow>
          (let w = newWhere [(r_identifier relationship, wh)] b
           in getRelationshipStatement (r_direction relationship) (r_identifier relationship)
                (r_name relationship) (Some (InnerWhere w)) (bindParam w))
      | None \<Rightarrow>
          (case r_properties relationship of
             Some props \<Rightarrow>
               getRelationshipStatement (r_direction relationship) (r_identifier relationship)
                 (r_name relationship) (Some (InnerProperties props)) b
           | None \<Rightarrow>
               getRelationshipStatement (r_direction relationship) (r_identifier relationship)
                 (r_name relationship) None b))"

text \<open>
  \<^verbatim>\<open>getRelationshipString\<close> is only called on an element that has passed
  \<^verbatim>\<open>isRelationship\<close>, which narrows its type; the last equation is never reached.
\<close>

fun getRelationshipString ::
  "element \<Rightarrow> bind_param \<Rightarrow> neogma_error + (string \<times> bind_param)" where
  "getRelationshipString (ElementString relationship) b = Inr (relationship, b)"
| "getRelationshipString (ElementRelationship relationship) b =
     getRelationshipObjectString relationship b"
| "getRelationshipString (ElementNode node) b =
     Inl (NeogmaConstraintError ''even argument of related is not a relationship'' None)"

text \<open>\<^verbatim>\<open>multiple.map((element) => this.getNodeString(element))\<close>\<close>

fun getNodeStrings ::
  "element list \<Rightarrow> bind_param \<Rightarrow> neogma_error + (string list \<times> bind_param)" where
  "getNodeStrings [] b = Inr ([], b)"
| "getNodeStrings (element # rest) b =
     (case getNodeString element b of
        Inl e \<Rightarrow> Inl e
      | Inr (s, b1) \<Rightarrow>
          (case getNodeStrings rest b1 of
             Inl e \<Rightarrow> Inl e
           | Inr (parts, b2) \<Rightarrow> Inr (s # parts, b2)))"

text \<open>The loop over a related pattern, from position \<open>index\<close> on.\<close>

fun relatedParts ::
  "nat \<Rightarrow> element list \<Rightarrow> bind_param \<Rightarrow> neogma_error + (string list \<times> bind_param)" where
  "relatedParts index [] b = Inr ([], b)"
| "relatedParts index (element # rest) b =
     (if index mod 2 \<noteq> 0 then
        (if \<not> isRelationship element then
           Inl (NeogmaConstraintError ''even argument of related is not a relationship'' None)
         else
           (case getRelationshipString element b of
              Inl e \<Rightarrow> Inl e
            | Inr (s, b1) \<Rightarrow>
                (case relatedParts (Suc index) rest b1 of
                   Inl e \<Rightarrow> Inl e
                 | Inr (parts, b2) \<Rightarrow> Inr (s # parts, b2))))
      else
        (case getNodeString element b of
           Inl e \<Rightarrow> Inl e
         | Inr (s, b1) \<Rightarrow>
             (case relatedParts (Suc index) rest b1 of
                Inl e \<Rightarrow> Inl e
              | Inr (parts, b2) \<Rightarrow> Inr (s # parts, b2))))"

definition getMatchString ::
  "match \<Rightarrow> bind_param \<Rightarrow> neogma_error + (string \<times> bind_param)" where
  "getMatchString m b =
     (case m of
        MatchString s \<Rightarrow> Inr (''MATCH '' @ s, b)
      | MatchMultiple optional multiple \<Rightarrow>
          (case getNodeStrings multiple b of
             Inl e \<Rightarrow> Inl e
           | Inr (parts, b') \<Rightarrow>
               Inr (join '' '' [if flag optional then ''OPTIONAL'' else [], ''MATCH'',
                                join '', '' parts], b'))
      | MatchRelated optional related \<Rightarrow>
          (case relatedParts 0 related b of
             Inl e \<Rightarrow> Inl e
           | Inr (parts, b') \<Rightarrow>
               Inr (join '' '' [if flag optional then ''OPTIONAL'' else [], ''MATCH'',
                                join [] parts], b'))
      | MatchLiteral optional literal \<Rightarrow>
          (case getNodeString (ElementString literal) b of
             Inl e \<Rightarrow> Inl e
           | Inr (s, b') \<Rightarrow>
               Inr (join '' '' [if flag optional then ''OPTIONAL'' else [], ''MATCH '' @ s], b'))
      | MatchNode optional node \<Rightarrow>
          (case getNodeString (ElementNode node) b of
             Inl e \<Rightarrow> Inl e
           | Inr (s, b') \<Rightarrow>
               Inr (join '' '' [if flag optional then ''OPTIONAL'' else [], ''MATCH '' @ s], b')))"

definition getCreateOrMergeString ::
  "create \<Rightarrow> create_mode \<Rightarrow> bind_param \<Rightarrow> neogma_error + (string \<times> bind_param)" where
  "getCreateOrMergeString c cm b =
     (let createOrMerge = (if cm = ModeMerge then ''MERGE'' else ''CREATE'')
      in case c of
           CreateString s \<Rightarrow> Inr (createOrMerge @ '' '' @ s, b)
         | CreateMultiple multiple \<Rightarrow>
             (case getNodeStrings multiple b of
                Inl e \<Rightarrow> Inl e
              | Inr (parts, b') \<Rightarrow> Inr (join '' '' [createOrMerge, join '', '' parts], b'))
         | CreateRelated related \<Rightarrow>
             (case relatedParts 0 related b of
                Inl e \<Rightarrow> Inl e
              | Inr (parts, b') \<Rightarrow> Inr (join '' '' [createOrMerge, join [] parts], b'))
         | CreateNode node \<Rightarrow>
             (case n_label node of
                Some l \<Rightarrow>
                  (case getNodeString
                          (ElementNode \<lparr>n_identifier = n_identifier node, n_label = Some l,
                             n_model = None, n_where = None, n_properties = None\<rparr>) b of
                     Inl e \<Rightarrow> Inl e
                   | Inr (s, b') \<Rightarrow> Inr (join '' '' [createOrMerge, s], b'))
              | None \<Rightarrow>
                  (case n_model node of
                     Some mdl \<Rightarrow>
                       (case getNodeString
                               (ElementNode \<lparr>n_identifier = n_identifier node, n_label = None,
                                  n_model = Some mdl, n_where = None, n_properties = None\<rparr>) b of
                          Inl e \<Rightarrow> Inl e
                        | Inr (s, b') \<Rightarrow> Inr (join '' '' [createOrMerge, s], b'))
                   | None \<Rightarrow>
                       Inl (NeogmaConstraintError ''Invanid create parameter''
                              (Some (ActualCreate node))))))"

fun getSetString :: "set_parameter \<Rightarrow> bind_param \<Rightarrow> string \<times> bind_param" where
  "getSetString (SetString s) b = (''SET '' @ s, b)"
| "getSetString (SetObject ident props) b = getSetParts props ident b"

text \<open>
  \<^verbatim>\<open>getDeleteString\<close> and \<^verbatim>\<open>getRemoveString\<close> end without a \<^verbatim>\<open>return\<close> when no guard
  holds: the result is \<^verbatim>\<open>undefined\<close>, here \<^term>\<open>None\<close>.
\<close>

fun getDeleteString :: "delete \<Rightarrow> string option" where
  "getDeleteString (DeleteString dlt) = Some (''DELETE '' @ dlt)"
| "getDeleteString (DeleteWithIdentifier identifiers detach) =
     Some ((if flag detach then ''DETACH '' else []) @ ''DELETE ''
           @ join '', '' (toArray identifiers))"
| "getDeleteString (DeleteWithLiteral literal detach) =
     Some ((if flag detach then ''DETACH '' else []) @ ''DELETE '' @ literal)"
| "getDeleteString DeleteOther = None"

fun getRemoveString :: "remove \<Rightarrow> string option" where
  "getRemoveString (RemoveString remove) = Some (''REMOVE '' @ remove)"
| "getRemoveString (RemoveProperties ident properties) =
     Some (''REMOVE '' @ join '', '' (map (\<lambda>p. ident @ ''.'' @ p) (toArray properties)))"
| "getRemoveString (RemoveLabels ident labels) =
     Some (''REMOVE '' @ ident @ '':'' @ join '':'' (toArray labels))"
| "getRemoveString RemoveOther = None"

text \<open>A property of a return object counts when it is present and not the empty string.\<close>

fun getReturnString :: "return \<Rightarrow> string" where
  "getReturnString (ReturnString rtn) = ''RETURN '' @ rtn"
| "getReturnString (ReturnObject rtn) =
     ''RETURN '' @ join '', ''
        (map (\<lambda>(ident, prop).
                ident @ (case prop of
                           Some p \<Rightarrow> (if p \<noteq> [] then ''.'' @ p else [])
                         | None \<Rightarrow> [])) rtn)"
| "getReturnString (ReturnArray rtn) = ''RETURN '' @ join '', '' rtn"

text \<open>The driver's \<^verbatim>\<open>int(limit)\<close> wraps the number as an integer value.\<close>

fun getLimitString :: "limit \<Rightarrow> bind_param \<Rightarrow> string \<times> bind_param" where
  "getLimitString (LimitString lmt) b = (''LIMIT '' @ lmt, b)"
| "getLimitString (LimitNumber lmt) b =
     (case getUniqueNameAndAdd b ''limit'' (JInt lmt) of
        (name, b') \<Rightarrow> (''LIMIT '' @ ''$'' @ name, b'))"

fun getWithString :: "with_parameter \<Rightarrow> string" where
  "getWithString (WithString wth) = ''WITH '' @ join '', '' [wth]"
| "getWithString (WithArray wth) = ''WITH '' @ join '', '' wth"

text \<open>
  One turn of the loop of \<^verbatim>\<open>setStatementByParameters\<close>: what is pushed onto
  \<^verbatim>\<open>statementParts\<close> (nothing for a parameter no guard accepts, \<^verbatim>\<open>undefined\<close> when a
  renderer returns it) and the table afterwards.
\<close>

definition statementPart ::
  "parameter \<Rightarrow> bind_param \<Rightarrow> neogma_error + (string option list \<times> bind_param)" where
  "statementPart param b =
     (case param of
        RawI raw \<Rightarrow> Inr ([Some raw], b)
      | MatchI m \<Rightarrow>
          (case getMatchString m b of Inl e \<Rightarrow> Inl e | Inr (s, b') \<Rightarrow> Inr ([Some s], b'))
      | CreateI c \<Rightarrow>
          (case getCreateOrMergeString c ModeCreate b of
             Inl e \<Rightarrow> Inl e
           | Inr (s, b') \<Rightarrow> Inr ([Some s], b'))
      | MergeI c \<Rightarrow>
          (case getCreateOrMergeString c ModeMerge b of
             Inl e \<Rightarrow> Inl e
           | Inr (s, b') \<Rightarrow> Inr ([Some s], b'))
      | SetI st \<Rightarrow> (case getSetString st b of (s, b') \<Rightarrow> Inr ([Some s], b'))
      | DeleteI dlt \<Rightarrow> Inr ([getDeleteString dlt], b)
      | RemoveI remove \<Rightarrow> Inr ([getRemoveString remove], b)
      | ReturnI rtn \<Rightarrow> Inr ([Some (getReturnString rtn)], b)
      | LimitI lmt \<Rightarrow> (case getLimitString lmt b of (s, b') \<Rightarrow> Inr ([Some s], b'))
      | WithI wth \<Rightarrow> Inr ([Some (getWithString wth)], b)
      | OtherParameter \<Rightarrow> Inr ([], b))"

fun statementParts ::
  "parameter list \<Rightarrow> bind_param \<Rightarrow> neogma_error + (string option list \<times> bind_param)" where
  "statementParts [] b = Inr ([], b)"
| "statementParts (param # params) b =
     (case statementPart param b of
        Inl e \<Rightarrow> Inl e
      | Inr (part, b1) \<Rightarrow>
          (case statementParts params b1 of
             Inl e \<Rightarrow> Inl e
           | Inr (parts, b2) \<Rightarrow> Inr (part @ parts, b2)))"

text \<open>
  \<^verbatim>\<open>join\<close> renders an \<^verbatim>\<open>undefined\<close> element as the empty string. The class \<^verbatim>\<open>\s\<close>
  of a JavaScript regular expression, among the code units below 256: tab, line feed,
  vertical tab, form feed, carriage return, space and the no-break space.
\<close>

fun elementText :: "string option \<Rightarrow> string" where
  "elementText None = []"
| "elementText (Some s) = s"

definition isWhitespace :: "char \<Rightarrow> bool" where
  "isWhitespace c = ((of_char c :: nat) \<in> {9, 10, 11, 12, 13, 32, 160})"

text \<open>\<^verbatim>\<open>replace(/\s+/g, ' ')\<close>: every maximal run of whitespace becomes one space.\<close>

function collapseWhitespace :: "string \<Rightarrow> string" where
  "collapseWhitespace [] = []"
| "collapseWhitespace (c # cs) =
     (if isWhitespace c then CHR '' '' # collapseWhitespace (dropWhile isWhitespace cs)
      else c # collapseWhitespace cs)"
  by pat_completeness auto
termination
  by (relation "measure length") (auto simp: le_imp_less_Suc length_dropWhile_le)

definition setStatementByParameters ::
  "parameter list \<Rightarrow> bind_param \<Rightarrow> neogma_error + (string \<times> bind_param)" where
  "setStatementByParameters parameters b =
     (case statementParts parameters b of
        Inl e \<Rightarrow> Inl e
      | Inr (parts, b') \<Rightarrow>
          Inr (collapseWhitespace (join [CHR 0x0A] (map elementText parts)), b'))"


section \<open>Notions the properties are stated with\<close>



text \<open>
  The (identifier, attribute, operator) triples of the values the two guards accept, in
  the order of the loops of \<^verbatim>\<open>setBindParamNames\<close>.
\<close>

definition acceptedPairs :: "where_params_by_identifier \<Rightarrow> (string \<times> string \<times> operator) list" where
  "acceptedPairs params =
     concat (map (\<lambda>(i, attrs).
                map (\<lambda>(a, v). (i, a, if isNeo4jSupportedTypes v then Equals else In))
                    (filter (\<lambda>(a, v). isNeo4jSupportedTypes v \<or> isWhereIn v) attrs)) params)"

text \<open>
  What a run of the loops does to a predicate: \<open>stepsTo w w' keys\<close> holds when \<open>w'\<close> is \<open>w\<close>
  with new table entries at the end, under names that are pairwise distinct and were not
  in the table, and with one new tuple per new entry, holding that entry's name behind a
  \<^verbatim>\<open>$\<close>; \<open>keys\<close> are the new tuples without their names.
\<close>

definition stepsTo ::
  "where_state \<Rightarrow> where_state \<Rightarrow> (string \<times> string \<times> operator) list \<Rightarrow> bool" where
  "stepsTo w w' keys =
     (let added = drop (length (bindParam w)) (bindParam w');
          new = drop (length (identifierPropertyData w)) (identifierPropertyData w')
      in rawParams w' = rawParams w
         \<and> take (length (bindParam w)) (bindParam w') = bindParam w
         \<and> take (length (identifierPropertyData w)) (identifierPropertyData w')
             = identifierPropertyData w
         \<and> map bindParamName new = map (\<lambda>kv. ''$'' @ fst kv) added
         \<and> distinct (map fst added)
         \<and> names added \<inter> names (bindParam w) = {}
         \<and> map (\<lambda>d. (identifier d, property d, operator d)) new = keys)"


text \<open>
  Following the spec's words: every placeholder of a predicate is registered, and no
  two placeholders are the same. The placeholders of a predicate are the
  \<^verbatim>\<open>bindParamName\<close>s of its tuples, which \<^verbatim>\<open>getStatement\<close> writes into the fragments.
\<close>

definition placeholdersRegistered :: "where_state \<Rightarrow> bool" where
  "placeholdersRegistered w =
     (distinct (map bindParamName (identifierPropertyData w))
      \<and> list_all (\<lambda>d. case bindParamName d of
                         [] \<Rightarrow> False
                       | c # n \<Rightarrow> c = CHR ''$'' \<and> n \<in> names (bindParam w))
                  (identifierPropertyData w))"


section \<open>Delete and Remove clauses\<close>

lemma getDeleteString_None: "(getDeleteString d = None) = (d = DeleteOther)"
  by (cases d) simp_all

lemma getRemoveString_None: "(getRemoveString r = None) = (r = RemoveOther)"
  by (cases r) simp_all

text \<open>
  Claim C8. A Delete clause in identifier form renders as \<^verbatim>\<open>DETACH DELETE\<close> when the
  detach flag is true and as \<^verbatim>\<open>DELETE\<close> otherwise (flag false or absent), followed by the
  identifiers joined with a comma and a space; a single identifier is rendered as a list
  of one. The descriptor \<^verbatim>\<open>{identifiers: ["a","b"], detach: true}\<close> renders
  \<^verbatim>\<open>DETACH DELETE a, b\<close>. The fragment is what the clause contributes to the statement,
  and the table is left as it was.
\<close>

theorem delete_identifier_form:
  "getDeleteString (DeleteWithIdentifier (Many ids) detach)
     = Some ((if detach = Some True then ''DETACH DELETE '' else ''DELETE '') @ join '', '' ids)
   \<and> getDeleteString (DeleteWithIdentifier (One i) detach)
     = Some ((if detach = Some True then ''DETACH DELETE '' else ''DELETE '') @ i)
   \<and> getDeleteString (DeleteWithIdentifier (Many [''a'', ''b'']) (Some True))
     = Some ''DETACH DELETE a, b''
   \<and> statementPart (DeleteI (DeleteWithIdentifier ids' detach)) b
     = Inr ([getDeleteString (DeleteWithIdentifier ids' detach)], b)"
  by (cases detach) (auto simp: statementPart_def)

text \<open>
  Claim C9. A Delete or Remove descriptor that is not a raw string and that none of the
  guards accepts makes the renderer return \<^verbatim>\<open>undefined\<close> (and it is the only descriptor
  that does): no error is raised, the undefined part is pushed and contributes no text
  to the statement. Create and Merge, for a node descriptor with neither a label nor a
  model, throw a constraint error that carries the offending descriptor.
\<close>

theorem unrecognized_delete_remove_undefined:
  "(getDeleteString d = None) = (d = DeleteOther)
   \<and> (getRemoveString r = None) = (r = RemoveOther)
   \<and> statementPart (DeleteI DeleteOther) b = Inr ([None], b)
   \<and> statementPart (RemoveI RemoveOther) b = Inr ([None], b)
   \<and> setStatementByParameters [DeleteI DeleteOther] b = Inr ([], b)
   \<and> setStatementByParameters [RemoveI RemoveOther] b = Inr ([], b)
   \<and> (n_label node = None \<and> n_model node = None \<longrightarrow>
        getCreateOrMergeString (CreateNode node) cm b
          = Inl (NeogmaConstraintError ''Invanid create parameter'' (Some (ActualCreate node))))"
  by (simp add: getDeleteString_None getRemoveString_None statementPart_def
      setStatementByParameters_def getCreateOrMergeString_def)

theorem unrecognized_delete_remove_undefined_witness:
  "getDeleteString DeleteOther = None \<and> getRemoveString RemoveOther = None
   \<and> setStatementByParameters [RawI ''MATCH (a)'', DeleteI DeleteOther, RawI ''RETURN a''] []
       = Inr (''MATCH (a) RETURN a'', [])
   \<and> getCreateOrMergeString
        (CreateNode \<lparr>n_identifier = ''a'', n_label = None, n_model = None,
                      n_where = None, n_properties = Some [(''p'', JNumber 1)]\<rparr>) ModeCreate []
       = Inl (NeogmaConstraintError ''Invanid create parameter''
               (Some (ActualCreate \<lparr>n_identifier = ''a'', n_label = None, n_model = None,
                      n_where = None, n_properties = Some [(''p'', JNumber 1)]\<rparr>)))"
  using unrecognized_delete_remove_undefined
    [of DeleteOther RemoveOther "[]"
        "\<lparr>n_identifier = ''a'', n_label = None, n_model = None,
                      n_where = None, n_properties = Some [(''p'', JNumber 1)]\<rparr>" ModeCreate]
  by (simp add: setStatementByParameters_def statementPart_def isWhitespace_def)

section \<open>Rendering a predicate\<close>

lemma statementPartsOf_text:
  "statementPartsOf ModeText ds =
     Inr (map (\<lambda>d. identifier d @ ''.'' @ property d @ '' ''
                  @ (if operator d = In then ''IN'' else ''='') @ '' '' @ bindParamName d) ds)"
proof (induction ds)
  case Nil
  show ?case by simp
next
  case (Cons d ds)
  then show ?case by (cases "operator d") simp_all
qed

lemma statementPartsOf_object:
  "statementPartsOf ModeObject ds =
     (if list_all (\<lambda>d. operator d = Equals) ds
      then Inr (map (\<lambda>d. property d @ '' : '' @ bindParamName d) ds)
      else Inl (NeogmaConstraintError
                  ''The only operator which is supported for object mode is \"equals\"''
                  (Some (ActualModeOperator ModeObject In))))"
proof (induction ds)
  case Nil
  show ?case by simp
next
  case (Cons d ds)
  then show ?case by (cases "operator d") simp_all
qed

lemma newWhere_single_in:
  "identifierPropertyData (newWhere [(i, [(p, JWhereIn (JArray vs))])] b)
     = [\<lparr>identifier = i, property = p,
         bindParamName = ''$'' @ getUniqueName b p, operator = In\<rparr>]"
  by (simp add: newWhere_def addParams_def setBindParamNames_def assignAll_def addProperty_def
      getNameAndAddToParams_def getUniqueNameAndAdd_def Let_def)

text \<open>
  Claim C5. Rendering in object mode succeeds exactly when every accumulated tuple has
  the operator \<^verbatim>\<open>equals\<close>, and is a constraint error as soon as one tuple carries
  \<^verbatim>\<open>in\<close>; rendering in text mode never fails and writes \<^verbatim>\<open>IN\<close> for such a tuple. A
  predicate built from \<^verbatim>\<open>{a: {p1: {in: [1,2,3]}}}\<close>, over any table, is an error in object
  mode and \<^verbatim>\<open>a.p1 IN $name\<close> in text mode.
\<close>

theorem object_mode_requires_equals:
  "getStatement ModeObject w =
     (if list_all (\<lambda>d. operator d = Equals) (identifierPropertyData w)
      then Inr (''{ '' @ join '', ''
                  (map (\<lambda>d. property d @ '' : '' @ bindParamName d) (identifierPropertyData w))
                @ '' }'')
      else Inl (NeogmaConstraintError
                  ''The only operator which is supported for object mode is \"equals\"''
                  (Some (ActualModeOperator ModeObject In))))
   \<and> getStatement ModeText w =
       Inr (join '' AND ''
             (map (\<lambda>d. identifier d @ ''.'' @ property d @ '' ''
                       @ (if operator d = In then ''IN'' else ''='') @ '' '' @ bindParamName d)
                  (identifierPropertyData w)))
   \<and> (\<exists>e. getStatement ModeObject
              (newWhere [(''a'', [(''p1'', JWhereIn (JArray [JNumber 1, JNumber 2, JNumber 3]))])] b)
            = Inl e)
   \<and> (\<exists>n. getStatement ModeText
              (newWhere [(''a'', [(''p1'', JWhereIn (JArray [JNumber 1, JNumber 2, JNumber 3]))])] b)
            = Inr (''a.p1 IN $'' @ n))"
  by (simp add: getStatement_def statementPartsOf_text statementPartsOf_object
      newWhere_single_in)

section \<open>Properties of the table and of the predicate compiler\<close>

lemma firstFreeName_fresh: "firstFreeName ks c n \<notin> set ks"
proof (induction ks c n rule: firstFreeName.induct)
  case (1 ks c n)
  show ?case
  proof (cases "c @ string_of_nat n \<in> set ks")
    case True
    with "1.IH" show ?thesis by (subst firstFreeName.simps) simp
  next
    case False
    then show ?thesis by (subst firstFreeName.simps) simp
  qed
qed

lemma getUniqueName_fresh: "getUniqueName b baseName \<notin> names b"
  using firstFreeName_fresh [of "map fst b" "sanitize baseName" 1]
  by (simp add: getUniqueName_def names_def Let_def)

lemma names_append: "names (b @ c) = names b \<union> names c"
  by (auto simp: names_def)

lemma names_single: "names [(k, v)] = {k}"
  by (simp add: names_def)

lemma map_of_fresh: "k \<notin> names b \<Longrightarrow> map_of b k = None"
  by (simp add: names_def map_of_eq_None_iff)

lemma assignAll_single_identifier: "assignAll [[(i, attrs)]] = [(i, attrs)]"
  by (simp add: assignAll_def)

lemma addProperty_supported:
  "isNeo4jSupportedTypes v \<Longrightarrow>
     addProperty i (p, v) w =
       w\<lparr>bindParam := bindParam w @ [(getUniqueName (bindParam w) p, v)],
         identifierPropertyData := identifierPropertyData w @
           [\<lparr>identifier = i, property = p,
             bindParamName = ''$'' @ getUniqueName (bindParam w) p, operator = Equals\<rparr>]\<rparr>"
  by (simp add: addProperty_def getNameAndAddToParams_def getUniqueNameAndAdd_def Let_def)

lemma isWhereIn_cases: "isWhereIn v \<Longrightarrow> \<exists>x. v = JWhereIn x"
  by (cases v) simp_all

lemma not_supported_WhereIn: "\<not> isNeo4jSupportedTypes (JWhereIn x)"
  by simp

lemma addProperty_in:
  "isWhereIn (JWhereIn x) \<Longrightarrow>
     addProperty i (p, JWhereIn x) w =
       w\<lparr>bindParam := bindParam w @ [(getUniqueName (bindParam w) p, x)],
         identifierPropertyData := identifierPropertyData w @
           [\<lparr>identifier = i, property = p,
             bindParamName = ''$'' @ getUniqueName (bindParam w) p, operator = In\<rparr>]\<rparr>"
  by (simp add: addProperty_def getNameAndAddToParams_def getUniqueNameAndAdd_def Let_def)

lemma addProperty_skipped:
  "\<not> isNeo4jSupportedTypes v \<Longrightarrow> \<not> isWhereIn v \<Longrightarrow> addProperty i (p, v) w = w"
  by (simp add: addProperty_def)

lemma text_mode_example_empty:
  "getStatement ModeText (newWhere [(''a'', [(''p1'', JString ''x''), (''p2'', JNumber 5)])] [])
     = Inr ''a.p1 = $p1 AND a.p2 = $p2''
   \<and> bindParam (newWhere [(''a'', [(''p1'', JString ''x''), (''p2'', JNumber 5)])] [])
     = [(''p1'', JString ''x''), (''p2'', JNumber 5)]"
  by code_simp

text \<open>
  Claim C7. A predicate built from \<^verbatim>\<open>{a: {p1: "x", p2: 5}}\<close> over any table renders in
  text mode as \<^verbatim>\<open>a.p1 = $n1 AND a.p2 = $n2\<close>, \<open>p1\<close> before \<open>p2\<close> as inserted, where the
  table handed back maps \<open>n1\<close> to \<^verbatim>\<open>"x"\<close> and \<open>n2\<close> to \<^verbatim>\<open>5\<close>; the two names differ and
  neither was in the table before. Over the empty table the names are \<open>p1\<close> and \<open>p2\<close>.
\<close>

theorem text_mode_example:
  "(\<exists>n1 n2.
      getStatement ModeText (newWhere [(''a'', [(''p1'', JString ''x''), (''p2'', JNumber 5)])] b)
        = Inr (''a.p1 = $'' @ n1 @ '' AND a.p2 = $'' @ n2)
      \<and> map_of (bindParam (newWhere [(''a'', [(''p1'', JString ''x''), (''p2'', JNumber 5)])] b)) n1
          = Some (JString ''x'')
      \<and> map_of (bindParam (newWhere [(''a'', [(''p1'', JString ''x''), (''p2'', JNumber 5)])] b)) n2
          = Some (JNumber 5)
      \<and> n1 \<noteq> n2 \<and> n1 \<notin> names b \<and> n2 \<notin> names b)
   \<and> getStatement ModeText (newWhere [(''a'', [(''p1'', JString ''x''), (''p2'', JNumber 5)])] [])
        = Inr ''a.p1 = $p1 AND a.p2 = $p2''
   \<and> bindParam (newWhere [(''a'', [(''p1'', JString ''x''), (''p2'', JNumber 5)])] [])
        = [(''p1'', JString ''x''), (''p2'', JNumber 5)]"
proof -
  define n1 where "n1 = getUniqueName b ''p1''"
  define b1 where "b1 = b @ [(n1, JString ''x'')]"
  define n2 where "n2 = getUniqueName b1 ''p2''"
  let ?w = "newWhere [(''a'', [(''p1'', JString ''x''), (''p2'', JNumber 5)])] b"
  have fresh1: "n1 \<notin> names b"
    unfolding n1_def by (rule getUniqueName_fresh)
  have "n2 \<notin> names b1"
    unfolding n2_def by (rule getUniqueName_fresh)
  then have fresh2: "n2 \<notin> names b" and neq: "n1 \<noteq> n2"
    by (auto simp: b1_def names_append names_single)
  have table: "bindParam ?w = b @ [(n1, JString ''x''), (n2, JNumber 5)]"
    and tuples: "identifierPropertyData ?w =
      [\<lparr>identifier = ''a'', property = ''p1'', bindParamName = ''$'' @ n1, operator = Equals\<rparr>,
       \<lparr>identifier = ''a'', property = ''p2'', bindParamName = ''$'' @ n2, operator = Equals\<rparr>]"
    by (simp_all add: newWhere_def addParams_def setBindParamNames_def
        assignAll_single_identifier addProperty_supported n1_def n2_def b1_def)
  have stmt: "getStatement ModeText ?w = Inr (''a.p1 = $'' @ n1 @ '' AND a.p2 = $'' @ n2)"
    by (simp add: getStatement_def tuples)
  have look1: "map_of (bindParam ?w) n1 = Some (JString ''x'')"
    unfolding table using fresh1 by (simp add: map_of_fresh map_add_def)
  have look2: "map_of (bindParam ?w) n2 = Some (JNumber 5)"
    unfolding table using fresh2 neq by (simp add: map_of_fresh map_add_def)
  from stmt look1 look2 neq fresh1 fresh2 text_mode_example_empty show ?thesis
    by blast
qed

section \<open>Assembling the statement\<close>

















section \<open>Related patterns\<close>








section \<open>What the predicate compiler adds\<close>

lemma stepsTo_iff:
  "stepsTo w w' keys =
     (rawParams w' = rawParams w
      \<and> (\<exists>added new.
            bindParam w' = bindParam w @ added
            \<and> identifierPropertyData w' = identifierPropertyData w @ new
            \<and> map bindParamName new = map (\<lambda>kv. ''$'' @ fst kv) added
            \<and> distinct (map fst added)
            \<and> names added \<inter> names (bindParam w) = {}
            \<and> map (\<lambda>d. (identifier d, property d, operator d)) new = keys))"
proof
  assume s: "stepsTo w w' keys"
  let ?added = "drop (length (bindParam w)) (bindParam w')"
  let ?new = "drop (length (identifierPropertyData w)) (identifierPropertyData w')"
  from s have "bindParam w' = bindParam w @ ?added"
    and "identifierPropertyData w' = identifierPropertyData w @ ?new"
    unfolding stepsTo_def Let_def by (metis append_take_drop_id)+
  moreover from s have "rawParams w' = rawParams w"
    and "map bindParamName ?new = map (\<lambda>kv. ''$'' @ fst kv) ?added"
    and "distinct (map fst ?added)" and "names ?added \<inter> names (bindParam w) = {}"
    and "map (\<lambda>d. (identifier d, property d, operator d)) ?new = keys"
    unfolding stepsTo_def Let_def by blast+
  ultimately show "rawParams w' = rawParams w
      \<and> (\<exists>added new.
            bindParam w' = bindParam w @ added
            \<and> identifierPropertyData w' = identifierPropertyData w @ new
            \<and> map bindParamName new = map (\<lambda>kv. ''$'' @ fst kv) added
            \<and> distinct (map fst added)
            \<and> names added \<inter> names (bindParam w) = {}
            \<and> map (\<lambda>d. (identifier d, property d, operator d)) new = keys)"
    by blast
next
  assume "rawParams w' = rawParams w
      \<and> (\<exists>added new.
            bindParam w' = bindParam w @ added
            \<and> identifierPropertyData w' = identifierPropertyData w @ new
            \<and> map bindParamName new = map (\<lambda>kv. ''$'' @ fst kv) added
            \<and> distinct (map fst added)
            \<and> names added \<inter> names (bindParam w) = {}
            \<and> map (\<lambda>d. (identifier d, property d, operator d)) new = keys)"
  then show "stepsTo w w' keys"
    unfolding stepsTo_def Let_def by auto
qed

lemma stepsTo_refl: "stepsTo w w []"
  by (simp add: stepsTo_iff names_def)

lemma stepsTo_trans:
  assumes "stepsTo w w1 k1" and "stepsTo w1 w2 k2"
  shows "stepsTo w w2 (k1 @ k2)"
proof -
  from assms(1) obtain a1 n1 where 1: "rawParams w1 = rawParams w"
    "bindParam w1 = bindParam w @ a1" "identifierPropertyData w1 = identifierPropertyData w @ n1"
    "map bindParamName n1 = map (\<lambda>kv. ''$'' @ fst kv) a1" "distinct (map fst a1)"
    "names a1 \<inter> names (bindParam w) = {}"
    "map (\<lambda>d. (identifier d, property d, operator d)) n1 = k1"
    unfolding stepsTo_iff by blast
  from assms(2) obtain a2 n2 where 2: "rawParams w2 = rawParams w1"
    "bindParam w2 = bindParam w1 @ a2" "identifierPropertyData w2 = identifierPropertyData w1 @ n2"
    "map bindParamName n2 = map (\<lambda>kv. ''$'' @ fst kv) a2" "distinct (map fst a2)"
    "names a2 \<inter> names (bindParam w1) = {}"
    "map (\<lambda>d. (identifier d, property d, operator d)) n2 = k2"
    unfolding stepsTo_iff by blast
  have "bindParam w2 = bindParam w @ (a1 @ a2)"
    and "identifierPropertyData w2 = identifierPropertyData w @ (n1 @ n2)"
    and "map bindParamName (n1 @ n2) = map (\<lambda>kv. ''$'' @ fst kv) (a1 @ a2)"
    and "map (\<lambda>d. (identifier d, property d, operator d)) (n1 @ n2) = k1 @ k2"
    using 1 2 by simp_all
  moreover have "distinct (map fst (a1 @ a2))"
    using 1(2,5) 2(5,6) by (auto simp: names_def)
  moreover have "names (a1 @ a2) \<inter> names (bindParam w) = {}"
    using 1(2,6) 2(6) by (auto simp: names_def)
  moreover have "rawParams w2 = rawParams w"
    using 1(1) 2(1) by simp
  ultimately show ?thesis
    unfolding stepsTo_iff by blast
qed

lemma stepsTo_one:
  assumes "n \<notin> names (bindParam w)"
  shows "stepsTo w
           (w\<lparr>bindParam := bindParam w @ [(n, x)],
              identifierPropertyData := identifierPropertyData w @
                [\<lparr>identifier = i, property = a, bindParamName = ''$'' @ n, operator = opr\<rparr>]\<rparr>)
           [(i, a, opr)]"
  unfolding stepsTo_iff
  by (rule conjI, simp, rule exI [of _ "[(n, x)]"],
      rule exI [of _ "[\<lparr>identifier = i, property = a, bindParamName = ''$'' @ n, operator = opr\<rparr>]"])
     (use assms in \<open>simp add: names_def\<close>)

lemma addProperty_steps:
  "stepsTo w (addProperty i (a, v) w)
     (if isNeo4jSupportedTypes v \<or> isWhereIn v
      then [(i, a, if isNeo4jSupportedTypes v then Equals else In)] else [])"
proof (cases "isNeo4jSupportedTypes v")
  case True
  with stepsTo_one [where n = "getUniqueName (bindParam w) a" and w = w and x = v and i = i and a = a and opr = Equals, OF getUniqueName_fresh] show ?thesis
    by (simp add: addProperty_supported)
next
  case unsupported: False
  show ?thesis
  proof (cases "isWhereIn v")
    case True
    then obtain x where "v = JWhereIn x"
      using isWhereIn_cases by blast
    with True unsupported stepsTo_one [where n = "getUniqueName (bindParam w) a" and w = w and x = x and i = i and a = a and opr = In, OF getUniqueName_fresh] show ?thesis
      by (simp add: addProperty_in)
  next
    case False
    with unsupported show ?thesis
      by (simp add: addProperty_skipped stepsTo_refl)
  qed
qed

lemma addProperties_steps:
  "stepsTo w (addProperties i attrs w)
     (map (\<lambda>(a, v). (i, a, if isNeo4jSupportedTypes v then Equals else In))
          (filter (\<lambda>(a, v). isNeo4jSupportedTypes v \<or> isWhereIn v) attrs))"
proof (induction attrs arbitrary: w)
  case Nil
  show ?case by (simp add: stepsTo_refl)
next
  case (Cons av attrs)
  obtain a v where av: "av = (a, v)" by (cases av)
  from stepsTo_trans [OF addProperty_steps [of w i a v] Cons.IH [of "addProperty i (a, v) w"]]
  show ?case
    by (cases "isNeo4jSupportedTypes v \<or> isWhereIn v") (auto simp: av)
qed

lemma addIdentifiers_steps: "stepsTo w (addIdentifiers params w) (acceptedPairs params)"
proof (induction params arbitrary: w)
  case Nil
  show ?case by (simp add: stepsTo_refl acceptedPairs_def)
next
  case (Cons ia params)
  obtain i attrs where ia: "ia = (i, attrs)" by (cases ia)
  from stepsTo_trans [OF addProperties_steps [of w i attrs]
      Cons.IH [of "addProperties i attrs w"]]
  show ?case
    by (simp add: ia acceptedPairs_def)
qed

lemma addParams_steps:
  "stepsTo (w\<lparr>rawParams := rawParams w @ [p]\<rparr>) (addParams p w)
     (acceptedPairs (assignAll (rawParams w @ [p])))"
  using addIdentifiers_steps [of "w\<lparr>rawParams := rawParams w @ [p]\<rparr>"
      "assignAll (rawParams w @ [p])"]
  by (simp add: addParams_def setBindParamNames_def)

section \<open>Values the guards do not accept\<close>

text \<open>
  Claim C2, as stated, fails: \<^verbatim>\<open>setBindParamNames\<close> has no branch for a value that is
  neither supported nor a set-membership wrapper. A predicate built from
  \<^verbatim>\<open>{a: {p1: null, p2: 5}}\<close> is built without an error, holds the tuple of \<open>p2\<close> only and
  renders.
\<close>

theorem unsupported_value_skipped_counterexample:
  "\<not> isNeo4jSupportedTypes JNull \<and> \<not> isWhereIn JNull
   \<and> identifierPropertyData (newWhere [(''a'', [(''p1'', JNull), (''p2'', JNumber 5)])] [])
       = [\<lparr>identifier = ''a'', property = ''p2'', bindParamName = ''$p2'', operator = Equals\<rparr>]
   \<and> bindParam (newWhere [(''a'', [(''p1'', JNull), (''p2'', JNumber 5)])] [])
       = [(''p2'', JNumber 5)]
   \<and> getStatement ModeText (newWhere [(''a'', [(''p1'', JNull), (''p2'', JNumber 5)])] [])
       = Inr ''a.p2 = $p2''"
  by code_simp

text \<open>
  Claim C2, amended. For every map passed to the predicate compiler, at construction or
  through \<^verbatim>\<open>addParams\<close>, an (identifier, attribute) whose value is neither a supported
  kind nor a set-membership wrapper is skipped: no error is raised, no bind entry is
  registered and no tuple is added. The tuples added are those of the pairs of the
  flattened maps whose value is supported (operator \<^verbatim>\<open>equals\<close>) or a set-membership
  wrapper (operator \<^verbatim>\<open>in\<close>), in order, one bind entry each.
\<close>

theorem unsupported_values_skipped:
  "(\<not> isNeo4jSupportedTypes v \<and> \<not> isWhereIn v \<longrightarrow> addProperty i (a, v) w = w)
   \<and> (\<exists>added new.
         bindParam (addParams p w) = bindParam w @ added
         \<and> identifierPropertyData (addParams p w) = identifierPropertyData w @ new
         \<and> length added = length new
         \<and> map (\<lambda>d. (identifier d, property d, operator d)) new
             = acceptedPairs (assignAll (rawParams w @ [p])))
   \<and> map (\<lambda>d. (identifier d, property d, operator d)) (identifierPropertyData (newWhere p b))
       = acceptedPairs (assignAll [p])
   \<and> length (bindParam (newWhere p b)) = length b + length (acceptedPairs (assignAll [p]))"
proof (intro conjI)
  show "\<not> isNeo4jSupportedTypes v \<and> \<not> isWhereIn v \<longrightarrow> addProperty i (a, v) w = w"
    by (simp add: addProperty_skipped)
next
  from addParams_steps [of w p] obtain added new where
    "bindParam (addParams p w) = bindParam w @ added"
    "identifierPropertyData (addParams p w) = identifierPropertyData w @ new"
    "map bindParamName new = map (\<lambda>kv. ''$'' @ fst kv) added"
    "map (\<lambda>d. (identifier d, property d, operator d)) new
       = acceptedPairs (assignAll (rawParams w @ [p]))"
    unfolding stepsTo_iff by auto
  moreover from this(3) have "length added = length new"
    by (metis length_map)
  ultimately show "\<exists>added new.
         bindParam (addParams p w) = bindParam w @ added
         \<and> identifierPropertyData (addParams p w) = identifierPropertyData w @ new
         \<and> length added = length new
         \<and> map (\<lambda>d. (identifier d, property d, operator d)) new
             = acceptedPairs (assignAll (rawParams w @ [p]))"
    by blast
next
  let ?w0 = "\<lparr>bindParam = b, rawParams = [], identifierPropertyData = []\<rparr>"
  from addParams_steps [of ?w0 p] obtain added new where *:
    "bindParam (newWhere p b) = b @ added"
    "identifierPropertyData (newWhere p b) = new"
    "map bindParamName new = map (\<lambda>kv. ''$'' @ fst kv) added"
    "map (\<lambda>d. (identifier d, property d, operator d)) new = acceptedPairs (assignAll [p])"
    unfolding stepsTo_iff newWhere_def by auto
  from *(3) have len: "length added = length new"
    by (metis length_map)
  from *(2,4) show "map (\<lambda>d. (identifier d, property d, operator d))
                     (identifierPropertyData (newWhere p b)) = acceptedPairs (assignAll [p])"
    by simp
  from *(4) have "length new = length (acceptedPairs (assignAll [p]))"
    by (metis length_map)
  with *(1) len show "length (bindParam (newWhere p b))
                     = length b + length (acceptedPairs (assignAll [p]))"
    by simp
qed

theorem unsupported_values_skipped_witness:
  "\<not> isNeo4jSupportedTypes JObject \<and> \<not> isWhereIn JObject
   \<and> addProperty ''a'' (''p1'', JObject)
        \<lparr>bindParam = [(''q'', JNumber 1)], rawParams = [], identifierPropertyData = []\<rparr>
       = \<lparr>bindParam = [(''q'', JNumber 1)], rawParams = [], identifierPropertyData = []\<rparr>
   \<and> acceptedPairs (assignAll [[(''a'', [(''p1'', JObject), (''p2'', JWhereIn (JArray [JNumber 1]))])]])
       = [(''a'', ''p2'', In)]
   \<and> map (\<lambda>d. (identifier d, property d, operator d))
         (identifierPropertyData
            (newWhere [(''a'', [(''p1'', JObject), (''p2'', JWhereIn (JArray [JNumber 1]))])] []))
       = [(''a'', ''p2'', In)]"
proof -
  have n: "\<not> isNeo4jSupportedTypes JObject \<and> \<not> isWhereIn JObject"
    by simp
  have acc: "acceptedPairs
        (assignAll [[(''a'', [(''p1'', JObject), (''p2'', JWhereIn (JArray [JNumber 1]))])]])
       = [(''a'', ''p2'', In)]"
    by code_simp
  from unsupported_values_skipped [of JObject "''a''" "''p1''"
      "\<lparr>bindParam = [(''q'', JNumber 1)], rawParams = [], identifierPropertyData = []\<rparr>"
      "[(''a'', [(''p1'', JObject), (''p2'', JWhereIn (JArray [JNumber 1]))])]" "[]"] n acc
  show ?thesis
    by simp
qed

section \<open>Adding a second map\<close>

lemma addParams_example_empty:
  "getStatement ModeText
     (addParams [(''a'', [(''p1'', JString ''y'')])]
        (newWhere [(''a'', [(''p1'', JString ''x''), (''p2'', JNumber 5)])] []))
     = Inr ''a.p1 = $p1 AND a.p2 = $p2 AND a.p1 = $p11''
   \<and> bindParam
        (addParams [(''a'', [(''p1'', JString ''y'')])]
           (newWhere [(''a'', [(''p1'', JString ''x''), (''p2'', JNumber 5)])] []))
       = [(''p1'', JString ''x''), (''p2'', JNumber 5), (''p11'', JString ''y'')]"
  by code_simp

text \<open>
  Claim C3 against the code. After \<^verbatim>\<open>new Where({a: {p1: "x", p2: 5}})\<close>, over any table,
  the call \<^verbatim>\<open>addParams({a: {p1: "y"}})\<close> merges the maps to \<^verbatim>\<open>{a: {p1: "y"}}\<close>, as the
  comment in \<^verbatim>\<open>setBindParamNames\<close> intends, and adds a tuple for it; the tuples of the
  first call are never removed from \<^verbatim>\<open>identifierPropertyData\<close>, so the statement has three
  fragments, two of them for \<open>a.p1\<close>: the first still bound to \<^verbatim>\<open>"x"\<close>, the last to
  \<^verbatim>\<open>"y"\<close>, under three different names.
\<close>

theorem addParams_keeps_earlier_tuples:
  "(\<exists>n1 n2 n3.
      getStatement ModeText
        (addParams [(''a'', [(''p1'', JString ''y'')])]
           (newWhere [(''a'', [(''p1'', JString ''x''), (''p2'', JNumber 5)])] b))
        = Inr (''a.p1 = $'' @ n1 @ '' AND a.p2 = $'' @ n2 @ '' AND a.p1 = $'' @ n3)
      \<and> map_of (bindParam
            (addParams [(''a'', [(''p1'', JString ''y'')])]
               (newWhere [(''a'', [(''p1'', JString ''x''), (''p2'', JNumber 5)])] b))) n1
          = Some (JString ''x'')
      \<and> map_of (bindParam
            (addParams [(''a'', [(''p1'', JString ''y'')])]
               (newWhere [(''a'', [(''p1'', JString ''x''), (''p2'', JNumber 5)])] b))) n2
          = Some (JNumber 5)
      \<and> map_of (bindParam
            (addParams [(''a'', [(''p1'', JString ''y'')])]
               (newWhere [(''a'', [(''p1'', JString ''x''), (''p2'', JNumber 5)])] b))) n3
          = Some (JString ''y'')
      \<and> distinct [n1, n2, n3])
   \<and> assignAll (rawParams
        (addParams [(''a'', [(''p1'', JString ''y'')])]
           (newWhere [(''a'', [(''p1'', JString ''x''), (''p2'', JNumber 5)])] b)))
       = [(''a'', [(''p1'', JString ''y'')])]
   \<and> getStatement ModeText
        (addParams [(''a'', [(''p1'', JString ''y'')])]
           (newWhere [(''a'', [(''p1'', JString ''x''), (''p2'', JNumber 5)])] []))
       = Inr ''a.p1 = $p1 AND a.p2 = $p2 AND a.p1 = $p11''
   \<and> bindParam
        (addParams [(''a'', [(''p1'', JString ''y'')])]
           (newWhere [(''a'', [(''p1'', JString ''x''), (''p2'', JNumber 5)])] []))
       = [(''p1'', JString ''x''), (''p2'', JNumber 5), (''p11'', JString ''y'')]"
proof -
  define n1 where "n1 = getUniqueName b ''p1''"
  define b1 where "b1 = b @ [(n1, JString ''x'')]"
  define n2 where "n2 = getUniqueName b1 ''p2''"
  define b2 where "b2 = b1 @ [(n2, JNumber 5)]"
  define n3 where "n3 = getUniqueName b2 ''p1''"
  let ?w1 = "newWhere [(''a'', [(''p1'', JString ''x''), (''p2'', JNumber 5)])] b"
  let ?w2 = "addParams [(''a'', [(''p1'', JString ''y'')])] ?w1"
  have fresh1: "n1 \<notin> names b"
    unfolding n1_def by (rule getUniqueName_fresh)
  have "n2 \<notin> names b1"
    unfolding n2_def by (rule getUniqueName_fresh)
  then have fresh2: "n2 \<notin> names b" and neq12: "n1 \<noteq> n2"
    by (auto simp: b1_def names_append names_single)
  have "n3 \<notin> names b2"
    unfolding n3_def by (rule getUniqueName_fresh)
  then have fresh3: "n3 \<notin> names b" and neq13: "n1 \<noteq> n3" and neq23: "n2 \<noteq> n3"
    by (auto simp: b2_def b1_def names_def)
  have w1_table: "bindParam ?w1 = b2"
    and w1_tuples: "identifierPropertyData ?w1 =
      [\<lparr>identifier = ''a'', property = ''p1'', bindParamName = ''$'' @ n1, operator = Equals\<rparr>,
       \<lparr>identifier = ''a'', property = ''p2'', bindParamName = ''$'' @ n2, operator = Equals\<rparr>]"
    and w1_raw: "rawParams ?w1 = [[(''a'', [(''p1'', JString ''x''), (''p2'', JNumber 5)])]]"
    by (simp_all add: newWhere_def addParams_def setBindParamNames_def
        assignAll_single_identifier addProperty_supported n1_def n2_def b1_def b2_def)
  have merged: "assignAll (rawParams ?w1 @ [[(''a'', [(''p1'', JString ''y'')])]])
      = [(''a'', [(''p1'', JString ''y'')])]"
    by (simp add: w1_raw assignAll_def)
  have w2_table: "bindParam ?w2 = b2 @ [(n3, JString ''y'')]"
    and w2_tuples: "identifierPropertyData ?w2 =
      [\<lparr>identifier = ''a'', property = ''p1'', bindParamName = ''$'' @ n1, operator = Equals\<rparr>,
       \<lparr>identifier = ''a'', property = ''p2'', bindParamName = ''$'' @ n2, operator = Equals\<rparr>,
       \<lparr>identifier = ''a'', property = ''p1'', bindParamName = ''$'' @ n3, operator = Equals\<rparr>]"
    and w2_raw: "assignAll (rawParams ?w2) = [(''a'', [(''p1'', JString ''y'')])]"
    unfolding addParams_def [of _ ?w1] setBindParamNames_def
    by (simp_all add: merged addProperty_supported w1_table w1_tuples n3_def)
  have stmt: "getStatement ModeText ?w2
      = Inr (''a.p1 = $'' @ n1 @ '' AND a.p2 = $'' @ n2 @ '' AND a.p1 = $'' @ n3)"
    by (simp add: getStatement_def w2_tuples)
  have look1: "map_of (bindParam ?w2) n1 = Some (JString ''x'')"
    unfolding w2_table b2_def b1_def using fresh1 by (simp add: map_of_fresh map_add_def)
  have look2: "map_of (bindParam ?w2) n2 = Some (JNumber 5)"
    unfolding w2_table b2_def b1_def using fresh2 neq12
    by (simp add: map_of_fresh map_add_def)
  have look3: "map_of (bindParam ?w2) n3 = Some (JString ''y'')"
    unfolding w2_table b2_def b1_def using fresh3 neq13 neq23
    by (simp add: map_of_fresh map_add_def)
  have "distinct [n1, n2, n3]"
    using neq12 neq13 neq23 by simp
  with stmt look1 look2 look3 w2_raw addParams_example_empty show ?thesis
    by blast
qed

section \<open>Placeholders and the shared table\<close>


























lemma registered_iff:
  "(case s of [] \<Rightarrow> False | c # n \<Rightarrow> c = CHR ''$'' \<and> n \<in> N)
     = (\<exists>n. s = CHR ''$'' # n \<and> n \<in> N)"
  by (cases s) auto

lemma placeholdersRegistered_iff:
  "placeholdersRegistered w =
     (distinct (map bindParamName (identifierPropertyData w))
      \<and> (\<forall>d \<in> set (identifierPropertyData w).
            \<exists>n. bindParamName d = CHR ''$'' # n \<and> n \<in> names (bindParam w)))"
  by (simp add: placeholdersRegistered_def list_all_iff registered_iff)

lemma placeholdersRegistered_rawParams [simp]:
  "placeholdersRegistered (w\<lparr>rawParams := r\<rparr>) = placeholdersRegistered w"
  by (simp add: placeholdersRegistered_iff)


















end
